theory Spec2Isabelle
  imports Complex_Main "HOL-Library.Char_ord" "HOL-Library.List_Lexorder"
begin

section \<open>JavaScript values\<close>

text \<open>
  The payment service is TypeScript; its \<^verbatim>\<open>number\<close> is an IEEE-754 double. A finite double
  is the rational it denotes (\<open>Num\<close>); the three special values are constructors of their
  own. Negative zero is not distinguished from zero.
\<close>

datatype number = Num rat | PInf | NInf | NaN

text \<open>Round a rational to the nearest integer, ties to the even one.\<close>

definition rne :: "rat \<Rightarrow> int" where
  "rne q = (let f = \<lfloor>q\<rfloor>; r = q - of_int f
            in if r < 1 / 2 then f else if 1 / 2 < r then f + 1
               else if even f then f else f + 1)"

text \<open>The binary exponent of a positive rational: the \<open>e\<close> with \<open>2 ^ e \<le> a < 2 ^ (e + 1)\<close>.\<close>

function exp_up :: "rat \<Rightarrow> int \<Rightarrow> int" where
  "exp_up a e = (if a < 2 then e else exp_up (a / 2) (e + 1))"
  by pat_completeness auto
termination
proof (relation "measure (\<lambda>(a, e). nat \<lfloor>a\<rfloor>)")
  show "wf (measure (\<lambda>(a :: rat, e :: int). nat \<lfloor>a\<rfloor>))" by simp
next
  fix a :: rat and e :: int
  assume "\<not> a < 2"
  then have a: "2 \<le> a" by simp
  then have "a / 2 + 1 \<le> a" by simp
  moreover have "of_int \<lfloor>a / 2\<rfloor> \<le> a / 2" by (rule of_int_floor_le)
  ultimately have "of_int (\<lfloor>a / 2\<rfloor> + 1) \<le> a" by simp
  then have "\<lfloor>a / 2\<rfloor> + 1 \<le> \<lfloor>a\<rfloor>" by (simp only: le_floor_iff)
  moreover have "0 \<le> \<lfloor>a / 2\<rfloor>" using a by simp
  ultimately have "nat \<lfloor>a / 2\<rfloor> < nat \<lfloor>a\<rfloor>" by linarith
  then show "((a / 2, e + 1), (a, e)) \<in> measure (\<lambda>(a, e). nat \<lfloor>a\<rfloor>)" by simp
qed

function exp_down :: "rat \<Rightarrow> int \<Rightarrow> int" where
  "exp_down a e = (if 1 \<le> a \<or> a \<le> 0 then e else exp_down (a * 2) (e - 1))"
  by pat_completeness auto
termination
proof (relation "measure (\<lambda>(a, e). nat \<lfloor>1 / a\<rfloor>)")
  show "wf (measure (\<lambda>(a :: rat, e :: int). nat \<lfloor>1 / a\<rfloor>))" by simp
next
  fix a :: rat and e :: int
  assume "\<not> (1 \<le> a \<or> a \<le> 0)"
  then have a: "0 < a" "a < 1" by simp_all
  have half: "nat \<lfloor>b / 2\<rfloor> < nat \<lfloor>b\<rfloor>" if b: "1 < b" for b :: rat
  proof -
    have "\<lfloor>b / 2\<rfloor> + 1 \<le> \<lfloor>b\<rfloor>"
    proof (cases "b < 2")
      case True
      then have "\<lfloor>b / 2\<rfloor> = 0" using b by (simp add: floor_eq_iff)
      moreover have "1 \<le> \<lfloor>b\<rfloor>" using b by (simp add: le_floor_iff)
      ultimately show ?thesis by simp
    next
      case False
      then have "b / 2 + 1 \<le> b" by simp
      moreover have "of_int \<lfloor>b / 2\<rfloor> \<le> b / 2" by (rule of_int_floor_le)
      ultimately have "of_int (\<lfloor>b / 2\<rfloor> + 1) \<le> b" by simp
      then show ?thesis by (simp only: le_floor_iff)
    qed
    moreover have "0 \<le> \<lfloor>b / 2\<rfloor>" using b by simp
    ultimately show ?thesis by linarith
  qed
  have "1 < 1 / a" using a by simp
  then have "nat \<lfloor>1 / a / 2\<rfloor> < nat \<lfloor>1 / a\<rfloor>" by (rule half)
  moreover have "1 / (a * 2) = 1 / a / 2" by simp
  ultimately have "nat \<lfloor>1 / (a * 2)\<rfloor> < nat \<lfloor>1 / a\<rfloor>" by (simp only:)
  then show "((a * 2, e - 1), (a, e)) \<in> measure (\<lambda>(a, e). nat \<lfloor>1 / a\<rfloor>)"
    by (simp only: in_measure prod.case)
qed

declare exp_up.simps [simp del] exp_down.simps [simp del]

definition exponent :: "rat \<Rightarrow> int" where
  "exponent a = (if 1 \<le> a then exp_up a 0 else exp_down a 0)"

text \<open>
  The double nearest to a rational: 53 significant bits, ties to even, gradual underflow
  below \<open>2 ^ -1022\<close>, overflow to an infinity once the rounded value reaches \<open>2 ^ 1024\<close>.
\<close>

definition double_of :: "rat \<Rightarrow> number" where
  "double_of x =
     (let e = max (exponent \<bar>x\<bar>) (- 1022);
          ulp = 2 powi (e - 52);
          r = of_int (rne (x / ulp)) * ulp
      in if 2 ^ 1024 \<le> r then PInf else if r \<le> - (2 ^ 1024) then NInf else Num r)"

fun is_negative :: "number \<Rightarrow> bool" where
  "is_negative (Num a) = (a < 0)"
| "is_negative NInf = True"
| "is_negative _ = False"

text \<open>\<^verbatim>\<open>x * y\<close>\<close>

fun js_mul :: "number \<Rightarrow> number \<Rightarrow> number" where
  "js_mul (Num a) (Num b) = double_of (a * b)"
| "js_mul NaN y = NaN"
| "js_mul x NaN = NaN"
| "js_mul x y =
     (if x = Num 0 \<or> y = Num 0 then NaN
      else if is_negative x = is_negative y then PInf else NInf)"

text \<open>\<^verbatim>\<open>x / y\<close>\<close>

fun js_div :: "number \<Rightarrow> number \<Rightarrow> number" where
  "js_div (Num a) (Num b) =
     (if b = 0 then (if a = 0 then NaN else if 0 < a then PInf else NInf)
      else double_of (a / b))"
| "js_div NaN y = NaN"
| "js_div x NaN = NaN"
| "js_div (Num a) y = Num 0"
| "js_div x (Num b) = (if is_negative x = (b < 0) then PInf else NInf)"
| "js_div x y = NaN"

text \<open>\<^verbatim>\<open>-x\<close>\<close>

fun js_neg :: "number \<Rightarrow> number" where
  "js_neg (Num a) = Num (- a)"
| "js_neg PInf = NInf"
| "js_neg NInf = PInf"
| "js_neg NaN = NaN"

text \<open>\<^verbatim>\<open>x < y\<close>: false whenever an operand is NaN.\<close>

fun js_less :: "number \<Rightarrow> number \<Rightarrow> bool" where
  "js_less NaN y = False"
| "js_less x NaN = False"
| "js_less (Num a) (Num b) = (a < b)"
| "js_less x NInf = False"
| "js_less PInf y = False"
| "js_less x y = True"

text \<open>\<^verbatim>\<open>Math.round\<close>: the nearest integer, a tie going towards plus infinity.\<close>

fun Math_round :: "number \<Rightarrow> number" where
  "Math_round (Num a) = Num (of_int \<lfloor>a + 1 / 2\<rfloor>)"
| "Math_round x = x"

text \<open>
  Truthiness of a possibly absent value (\<open>None\<close> is \<^verbatim>\<open>null\<close> or \<^verbatim>\<open>undefined\<close>): a number is
  falsy when it is zero or NaN, a string when it is empty.
\<close>

definition truthy_num :: "number option \<Rightarrow> bool" where
  "truthy_num x = (case x of None \<Rightarrow> False | Some n \<Rightarrow> n \<noteq> Num 0 \<and> n \<noteq> NaN)"

definition truthy_str :: "string option \<Rightarrow> bool" where
  "truthy_str x = (case x of None \<Rightarrow> False | Some s \<Rightarrow> s \<noteq> [])"

text \<open>\<^verbatim>\<open>x || d\<close> for a string \<open>x\<close> and for a number \<open>x\<close>.\<close>

definition str_or :: "string option \<Rightarrow> string \<Rightarrow> string" where
  "str_or x d = (case x of None \<Rightarrow> d | Some s \<Rightarrow> if s \<noteq> [] then s else d)"

definition num_or :: "number option \<Rightarrow> number \<Rightarrow> number" where
  "num_or x d = (case x of None \<Rightarrow> d | Some n \<Rightarrow> if n \<noteq> Num 0 \<and> n \<noteq> NaN then n else d)"

text \<open>
  The uniform result shape \<^verbatim>\<open>{ data, error }\<close> (\<^verbatim>\<open>ServiceResponse<T>\<close>). For a call to the
  store client the \<open>error\<close> field holds the \<^verbatim>\<open>message\<close> of the error object, \<open>None\<close> when the
  error object is \<^verbatim>\<open>null\<close>.
\<close>

record 'a response =
  data :: "'a option"
  error :: "string option"

section \<open>Data model\<close>

text \<open>
  The row types of \<^verbatim>\<open>types/api\<close> with the fields the service reads and writes.
  The \<^verbatim>\<open>config\<close> of a payment method may be absent, and so may each of its two entries.
\<close>

record method_config =
  supported_currencies :: "string list option"
  default_currency :: "string option"

record PaymentMethod =
  name :: string
  type :: string
  is_active :: bool
  config :: "method_config option"

datatype status = pending | completed | failed | refunded

text \<open>A value of the free-form \<^verbatim>\<open>metadata\<close> object.\<close>

datatype meta_value = MNum number | MStr string

record Transaction =
  tx_id :: nat
  user_id :: string
  promoted_poll_id :: "string option"
  amount :: number
  currency :: string
  original_amount :: number
  original_currency :: string
  payment_method :: string
  tx_status :: status
  gateway_transaction_id :: "string option"
  stripe_payment_intent_id :: "string option"
  metadata :: "string \<rightharpoonup> meta_value"
  updated_at :: "string option"

record Profile =
  points :: number
  profile_currency :: "string option"

text \<open>\<^verbatim>\<open>TransactionCreateRequest\<close>\<close>

record TransactionCreateRequest =
  req_amount :: number
  req_currency :: "string option"
  req_payment_method :: string
  req_promoted_poll_id :: "string option"
  req_metadata :: "(string \<rightharpoonup> meta_value) option"

section \<open>The store and the services behind the payment service\<close>

text \<open>
  The hosted store as the service sees it. \<open>transactions\<close> is keyed by the primary key, which
  the store assigns from \<open>next_id\<close>; \<open>updatable\<close> is the store's row-level update policy: an
  update skips the rows it rejects and reports the rows it changed.
  \<open>points_to_usd_conversion\<close> is the entry of that name in the \<^verbatim>\<open>promoted_polls\<close> settings.
\<close>

record world =
  payment_methods :: "PaymentMethod list"
  transactions :: "nat \<rightharpoonup> Transaction"
  next_id :: nat
  updatable :: "Transaction \<Rightarrow> bool"
  profiles :: "string \<rightharpoonup> Profile"
  points_to_usd_conversion :: "number option"
  exchange_rates :: "string \<times> string \<rightharpoonup> number"
  gateway_settings :: "string option \<rightharpoonup> string list"

text \<open>
  Every call that leaves the payment service takes a fault: \<open>Some m\<close> makes the call report
  the error \<open>m\<close> and change nothing, \<open>None\<close> lets it through.
\<close>

text \<open>
  Modelled from the spec: \<^verbatim>\<open>SettingsService.getSettings('promoted_polls')\<close>, not among the
  sources; "a configurable points-per-USD rate". The result is the \<^verbatim>\<open>points_to_usd_conversion\<close>
  entry of the returned settings.
\<close>

definition getSettings :: "string option \<Rightarrow> world \<Rightarrow> number response" where
  "getSettings fault w =
     (case fault of
        Some m \<Rightarrow> \<lparr>data = None, error = Some m\<rparr>
      | None \<Rightarrow> \<lparr>data = points_to_usd_conversion w, error = None\<rparr>)"

text \<open>
  Modelled from the spec: \<^verbatim>\<open>SettingsService.getExchangeRate\<close>, not among the sources; "(from_currency,
  to_currency) \<rightarrow> multiplicative rate".
\<close>

definition getExchangeRate :: "string option \<Rightarrow> world \<Rightarrow> string \<Rightarrow> string \<Rightarrow> number response" where
  "getExchangeRate fault w fromCurrency toCurrency =
     (case fault of
        Some m \<Rightarrow> \<lparr>data = None, error = Some m\<rparr>
      | None \<Rightarrow> \<lparr>data = exchange_rates w (fromCurrency, toCurrency), error = None\<rparr>)"

text \<open>
  Modelled from the spec: \<^verbatim>\<open>SettingsService.getPaymentGatewaySettings\<close>, not among the sources;
  the "methods enabled for a country (via a settings lookup)", as a list of method types.
\<close>

definition getPaymentGatewaySettings ::
  "string option \<Rightarrow> world \<Rightarrow> string option \<Rightarrow> string list response" where
  "getPaymentGatewaySettings fault w countryCode =
     (case fault of
        Some m \<Rightarrow> \<lparr>data = None, error = Some m\<rparr>
      | None \<Rightarrow> \<lparr>data = gateway_settings w countryCode, error = None\<rparr>)"

text \<open>
  Modelled from the spec: \<^verbatim>\<open>ProfileService.fetchProfileById\<close>, not among the sources; "fetch the
  user's profile".
\<close>

definition fetchProfileById :: "string option \<Rightarrow> world \<Rightarrow> string \<Rightarrow> Profile response" where
  "fetchProfileById fault w userId =
     (case fault of
        Some m \<Rightarrow> \<lparr>data = None, error = Some m\<rparr>
      | None \<Rightarrow> \<lparr>data = profiles w userId, error = None\<rparr>)"

text \<open>The store's own addition of a delta to a balance: exact on finite values.\<close>

fun add_points :: "number \<Rightarrow> number \<Rightarrow> number" where
  "add_points (Num a) (Num b) = Num (a + b)"
| "add_points NaN y = NaN"
| "add_points x NaN = NaN"
| "add_points PInf NInf = NaN"
| "add_points NInf PInf = NaN"
| "add_points (Num a) y = y"
| "add_points x y = x"

text \<open>
  Modelled from the spec: \<^verbatim>\<open>ProfileService.updateUserPoints\<close>, not among the sources; the
  "separate profile-update call" that applies a delta to the user's points. It returns its
  error and the store.
\<close>

definition updateUserPoints ::
  "string option \<Rightarrow> world \<Rightarrow> string \<Rightarrow> number \<Rightarrow> string option \<times> world" where
  "updateUserPoints fault w userId delta =
     (case fault of
        Some m \<Rightarrow> (Some m, w)
      | None \<Rightarrow>
          (case profiles w userId of
             None \<Rightarrow> (Some ''Profile not found'', w)
           | Some p \<Rightarrow>
               (None, w\<lparr>profiles := (profiles w)(userId \<mapsto> p\<lparr>points := add_points (points p) delta\<rparr>)\<rparr>)))"

text \<open>
  The store client on the \<^verbatim>\<open>payment_methods\<close> table:
  \<^verbatim>\<open>select('*').eq('is_active', true).order('name')\<close>.
\<close>

definition select_active_methods :: "string option \<Rightarrow> world \<Rightarrow> PaymentMethod list response" where
  "select_active_methods fault w =
     (case fault of
        Some m \<Rightarrow> \<lparr>data = None, error = Some m\<rparr>
      | None \<Rightarrow> \<lparr>data = Some (sort_key name (filter is_active (payment_methods w))), error = None\<rparr>)"

text \<open>
  The store client on the \<^verbatim>\<open>transactions\<close> table. \<^verbatim>\<open>insert(row).select().single()\<close> stores the
  row under a fresh key and returns it as stored.
\<close>

definition insert_transaction ::
  "string option \<Rightarrow> world \<Rightarrow> Transaction \<Rightarrow> Transaction response \<times> world" where
  "insert_transaction fault w row =
     (case fault of
        Some m \<Rightarrow> (\<lparr>data = None, error = Some m\<rparr>, w)
      | None \<Rightarrow>
          (let r = row\<lparr>tx_id := next_id w\<rparr>
           in (\<lparr>data = Some r, error = None\<rparr>,
               w\<lparr>transactions := (transactions w)(next_id w \<mapsto> r), next_id := Suc (next_id w)\<rparr>)))"

text \<open>
  \<^verbatim>\<open>update(patch).eq('id', i)\<close>, with or without \<^verbatim>\<open>select()\<close>: the rows changed, none when no row
  has the key or the policy rejects it.
\<close>

definition update_transaction ::
  "string option \<Rightarrow> world \<Rightarrow> nat \<Rightarrow> (Transaction \<Rightarrow> Transaction) \<Rightarrow>
     Transaction list response \<times> world" where
  "update_transaction fault w i patch =
     (case fault of
        Some m \<Rightarrow> (\<lparr>data = None, error = Some m\<rparr>, w)
      | None \<Rightarrow>
          (case transactions w i of
             None \<Rightarrow> (\<lparr>data = Some [], error = None\<rparr>, w)
           | Some r \<Rightarrow>
               if updatable w r
               then (\<lparr>data = Some [patch r], error = None\<rparr>,
                     w\<lparr>transactions := (transactions w)(i \<mapsto> patch r)\<rparr>)
               else (\<lparr>data = Some [], error = None\<rparr>, w)))"

text \<open>\<^verbatim>\<open>select('*').eq('id', i).maybeSingle()\<close>\<close>

definition select_transaction :: "string option \<Rightarrow> world \<Rightarrow> nat \<Rightarrow> Transaction response" where
  "select_transaction fault w i =
     (case fault of
        Some m \<Rightarrow> \<lparr>data = None, error = Some m\<rparr>
      | None \<Rightarrow> \<lparr>data = transactions w i, error = None\<rparr>)"

section \<open>PaymentService\<close>

text \<open>
  Each public function wraps its body in \<^verbatim>\<open>try { ... } catch\<close>. The store client and the
  services above report failures in their result and do not throw, so the only exceptions
  are those of the gateway round trip, which the two initialisers handle explicitly.
\<close>

subsection \<open>Payment method lookup\<close>

definition getPaymentMethods :: "string option \<Rightarrow> world \<Rightarrow> PaymentMethod list response" where
  "getPaymentMethods fault w =
     (let r = select_active_methods fault w
      in if error r \<noteq> None then \<lparr>data = None, error = error r\<rparr>
         else \<lparr>data = Some (case data r of None \<Rightarrow> [] | Some ms \<Rightarrow> ms), error = None\<rparr>)"

record available_faults =
  af_settings :: "string option"
  af_methods :: "string option"

text \<open>The predicate of the currency filter, lines 98 to 114.\<close>

definition supports_currency :: "string \<Rightarrow> PaymentMethod \<Rightarrow> bool" where
  "supports_currency c method =
     (case config method of
        None \<Rightarrow> True
      | Some cfg \<Rightarrow>
          (case supported_currencies cfg of
             Some cs \<Rightarrow> c \<in> set cs
           | None \<Rightarrow>
               (case default_currency cfg of
                  None \<Rightarrow> True
                | Some d \<Rightarrow> if d \<noteq> [] then d = c else True)))"

definition getAvailablePaymentMethods ::
  "available_faults \<Rightarrow> world \<Rightarrow> string option \<Rightarrow> string option \<Rightarrow> PaymentMethod list response" where
  "getAvailablePaymentMethods f w countryCode cur =
     (let s = getPaymentGatewaySettings (af_settings f) w countryCode
      in if truthy_str (error s) then \<lparr>data = None, error = error s\<rparr>
         else
           (let a = getPaymentMethods (af_methods f) w
            in if truthy_str (error a) then \<lparr>data = None, error = error a\<rparr>
               else
                 (let availableMethods =
                        (case data a of
                           None \<Rightarrow> []
                         | Some allMethods \<Rightarrow>
                             filter (\<lambda>method. case data s of
                                                None \<Rightarrow> False
                                              | Some enabledMethods \<Rightarrow> type method \<in> set enabledMethods)
                               allMethods)
                  in \<lparr>data = Some (case cur of
                                     None \<Rightarrow> availableMethods
                                   | Some c \<Rightarrow>
                                       if c \<noteq> [] then filter (supports_currency c) availableMethods
                                       else availableMethods),
                      error = None\<rparr>)))"

subsection \<open>Wallet payment\<close>

record wallet_faults =
  wf_settings :: "string option"
  wf_rate :: "string option"
  wf_profile :: "string option"
  wf_debit :: "string option"
  wf_insert :: "string option"
  wf_refund :: "string option"

text \<open>Lines 137 and 138: the points-per-USD rate, 100 when the setting is absent or falsy.\<close>

definition wallet_pointsToUsdConversion :: "wallet_faults \<Rightarrow> world \<Rightarrow> number" where
  "wallet_pointsToUsdConversion f w = num_or (data (getSettings (wf_settings f) w)) (Num 100)"

text \<open>
  Lines 141 to 152: the amount in USD; \<open>Inl\<close> is the early return with the lookup's error.
\<close>

definition wallet_amountInUSD :: "wallet_faults \<Rightarrow> world \<Rightarrow> number \<Rightarrow> string \<Rightarrow> string + number" where
  "wallet_amountInUSD f w amt cur =
     (if cur \<noteq> ''USD'' then
        (let r = getExchangeRate (wf_rate f) w cur ''USD'';
             amountInUSD =
               (case data r of
                  None \<Rightarrow> amt
                | Some exchangeRate \<Rightarrow>
                    if exchangeRate \<noteq> Num 0 \<and> exchangeRate \<noteq> NaN
                    then js_mul amt exchangeRate else amt)
         in case error r of
              None \<Rightarrow> Inr amountInUSD
            | Some rateError \<Rightarrow> if rateError \<noteq> [] then Inl rateError else Inr amountInUSD)
      else Inr amt)"

text \<open>Line 155.\<close>

definition wallet_pointsNeeded :: "number \<Rightarrow> number \<Rightarrow> number" where
  "wallet_pointsNeeded amountInUSD pointsToUsdConversion =
     Math_round (js_mul amountInUSD pointsToUsdConversion)"

text \<open>The row of lines 185 to 199.\<close>

definition wallet_row ::
  "string \<Rightarrow> string option \<Rightarrow> number \<Rightarrow> string \<Rightarrow> number \<Rightarrow> number \<Rightarrow> number \<Rightarrow> Transaction" where
  "wallet_row userId promotedPollId amt cur amountInUSD pointsNeeded pointsToUsdConversion =
     \<lparr>tx_id = 0, user_id = userId, promoted_poll_id = promotedPollId,
      amount = amountInUSD, currency = ''USD'',
      original_amount = amt, original_currency = cur,
      payment_method = ''wallet'', tx_status = completed,
      gateway_transaction_id = None, stripe_payment_intent_id = None,
      metadata = [''points_used'' \<mapsto> MNum pointsNeeded,
                  ''conversion_rate'' \<mapsto> MNum pointsToUsdConversion,
                  ''exchange_rate'' \<mapsto> MNum (if cur \<noteq> ''USD'' then js_div amountInUSD amt else Num 1)],
      updated_at = None\<rparr>"

text \<open>
  \<open>toString\<close> is the conversion of a number to a string in the template literal of line 168.
\<close>

definition processWalletPayment ::
  "(number \<Rightarrow> string) \<Rightarrow> wallet_faults \<Rightarrow> world \<Rightarrow> string \<Rightarrow> number \<Rightarrow> string option \<Rightarrow> string \<Rightarrow>
     Transaction response \<times> world" where
  "processWalletPayment toString f w userId amt promotedPollId cur =
     (let pointsToUsdConversion = wallet_pointsToUsdConversion f w
      in case wallet_amountInUSD f w amt cur of
           Inl rateError \<Rightarrow> (\<lparr>data = None, error = Some rateError\<rparr>, w)
         | Inr amountInUSD \<Rightarrow>
             (let pointsNeeded = wallet_pointsNeeded amountInUSD pointsToUsdConversion;
                  p = fetchProfileById (wf_profile f) w userId
              in case (if truthy_str (error p) then None else data p) of
                   None \<Rightarrow>
                     (\<lparr>data = None, error = Some (str_or (error p) ''User profile not found'')\<rparr>, w)
                 | Some profile \<Rightarrow>
                     if js_less (points profile) pointsNeeded
                     then (\<lparr>data = None,
                            error = Some (''Insufficient points. You need '' @ toString pointsNeeded
                                          @ '' points ('' @ toString (points profile)
                                          @ '' available).'')\<rparr>, w)
                     else
                       (let (pointsError, w1) =
                              updateUserPoints (wf_debit f) w userId (js_neg pointsNeeded)
                        in if truthy_str pointsError then (\<lparr>data = None, error = pointsError\<rparr>, w1)
                           else
                             (let (t, w2) =
                                    insert_transaction (wf_insert f) w1
                                      (wallet_row userId promotedPollId amt cur amountInUSD
                                         pointsNeeded pointsToUsdConversion)
                              in if error t \<noteq> None
                                 then (let (refundError, w3) =
                                             updateUserPoints (wf_refund f) w2 userId pointsNeeded
                                       in (\<lparr>data = None, error = error t\<rparr>, w3))
                                 else (\<lparr>data = data t, error = None\<rparr>, w2)))))"

subsection \<open>Transaction creation and status update\<close>

record create_faults =
  cf_profile :: "string option"
  cf_rate :: "string option"
  cf_insert :: "string option"

text \<open>Line 231 (and 479, 598): \<^verbatim>\<open>profile?.currency || 'USD'\<close>.\<close>

definition userCurrency :: "Profile response \<Rightarrow> string" where
  "userCurrency p =
     str_or (case data p of None \<Rightarrow> None | Some profile \<Rightarrow> profile_currency profile) ''USD''"

text \<open>Lines 234 to 243: the value stored as \<^verbatim>\<open>original_amount\<close>.\<close>

definition create_originalAmount ::
  "create_faults \<Rightarrow> world \<Rightarrow> TransactionCreateRequest \<Rightarrow> string \<Rightarrow> number" where
  "create_originalAmount f w transactionData userCur =
     (let originalCurrency = str_or (req_currency transactionData) ''USD''
      in if originalCurrency \<noteq> userCur then
           (case data (getExchangeRate (cf_rate f) w originalCurrency userCur) of
              None \<Rightarrow> req_amount transactionData
            | Some exchangeRate \<Rightarrow>
                if exchangeRate \<noteq> Num 0 \<and> exchangeRate \<noteq> NaN
                then js_mul (req_amount transactionData) exchangeRate
                else req_amount transactionData)
         else req_amount transactionData)"

definition createTransaction ::
  "create_faults \<Rightarrow> world \<Rightarrow> string \<Rightarrow> TransactionCreateRequest \<Rightarrow> Transaction response \<times> world" where
  "createTransaction f w userId transactionData =
     (let userCur = userCurrency (fetchProfileById (cf_profile f) w userId);
          originalAmount = create_originalAmount f w transactionData userCur;
          (r, w1) = insert_transaction (cf_insert f) w
                      \<lparr>tx_id = 0, user_id = userId,
                       promoted_poll_id = req_promoted_poll_id transactionData,
                       amount = req_amount transactionData,
                       currency = str_or (req_currency transactionData) ''USD'',
                       original_amount = originalAmount, original_currency = userCur,
                       payment_method = req_payment_method transactionData,
                       tx_status = pending,
                       gateway_transaction_id = None, stripe_payment_intent_id = None,
                       metadata = (case req_metadata transactionData of
                                     None \<Rightarrow> Map.empty | Some m \<Rightarrow> m),
                       updated_at = None\<rparr>
      in if error r \<noteq> None then (\<lparr>data = None, error = error r\<rparr>, w1)
         else (\<lparr>data = data r, error = None\<rparr>, w1))"

record update_faults =
  uf_update :: "string option"
  uf_select :: "string option"

text \<open>
  \<open>now\<close> is \<^verbatim>\<open>new Date().toISOString()\<close>. The parameter type of \<open>st\<close> in the source is
  \<^verbatim>\<open>'completed' | 'failed' | 'refunded'\<close>.
\<close>

definition updateTransactionStatus ::
  "update_faults \<Rightarrow> string \<Rightarrow> world \<Rightarrow> nat \<Rightarrow> status \<Rightarrow> string option \<Rightarrow>
     Transaction response \<times> world" where
  "updateTransactionStatus f now w transactionId st gatewayTransactionId =
     (let (u, w1) =
            update_transaction (uf_update f) w transactionId
              (\<lambda>r. r\<lparr>tx_status := st, updated_at := Some now,
                      gateway_transaction_id :=
                        (if truthy_str gatewayTransactionId then gatewayTransactionId
                         else gateway_transaction_id r)\<rparr>)
      in if error u \<noteq> None then (\<lparr>data = None, error = error u\<rparr>, w1)
         else
           (case data u of
              Some (updatedTransaction # rest) \<Rightarrow> (\<lparr>data = Some updatedTransaction, error = None\<rparr>, w1)
            | _ \<Rightarrow>
                (let e = select_transaction (uf_select f) w1 transactionId
                 in if error e \<noteq> None then (\<lparr>data = None, error = error e\<rparr>, w1)
                    else
                      (case data e of
                         None \<Rightarrow> (\<lparr>data = None, error = Some ''Transaction not found''\<rparr>, w1)
                       | Some existingTransaction \<Rightarrow>
                           if tx_status existingTransaction \<in> set [completed, failed, refunded]
                           then (\<lparr>data = Some existingTransaction, error = None\<rparr>, w1)
                           else (\<lparr>data = None, error = Some ''Transaction not found''\<rparr>, w1)))))"

subsection \<open>Gateway initiation\<close>

text \<open>
  What the \<^verbatim>\<open>fetch\<close> of the serverless function does: it rejects, or it yields a response with
  its \<^verbatim>\<open>ok\<close> flag whose \<^verbatim>\<open>json()\<close> rejects or yields an object with the entries read below.
  A rejection carries the message of the \<^verbatim>\<open>Error\<close> thrown.
\<close>

record gateway_json =
  j_error :: "string option"
  clientSecret :: "string option"
  paymentIntentId :: "string option"
  authorizationUrl :: "string option"
  reference :: "string option"

datatype json_outcome = Json_rejects string | Json_value gateway_json

datatype http_outcome = Fetch_rejects string | Http_response bool json_outcome

record gateway_faults =
  gf_rate :: "string option"
  gf_create :: create_faults
  gf_update :: "string option"

text \<open>
  Lines 482 to 489 and 601 to 608: the amount in the currency the gateway requires. (The
  profile fetched on lines 478 and 597 is not used.)
\<close>

definition gateway_amount :: "string option \<Rightarrow> world \<Rightarrow> number \<Rightarrow> string \<Rightarrow> string \<Rightarrow> number" where
  "gateway_amount fault w amt cur required =
     (if cur \<noteq> required then
        (case data (getExchangeRate fault w cur required) of
           None \<Rightarrow> amt
         | Some exchangeRate \<Rightarrow>
             if exchangeRate \<noteq> Num 0 \<and> exchangeRate \<noteq> NaN then js_mul amt exchangeRate else amt)
      else amt)"

text \<open>
  Lines 513 to 537, the body of the inner \<^verbatim>\<open>try\<close> up to the update: \<open>Inl\<close> is the message of
  the error thrown, \<open>Inr\<close> the client secret and the payment intent id.
\<close>

definition create_payment_intent :: "http_outcome \<Rightarrow> string + string \<times> string option" where
  "create_payment_intent http =
     (case http of
        Fetch_rejects m \<Rightarrow> Inl m
      | Http_response ok body \<Rightarrow>
          (case body of
             Json_rejects m \<Rightarrow> Inl m
           | Json_value j \<Rightarrow>
               if \<not> ok then Inl (str_or (j_error j) ''Failed to create payment intent'')
               else (case clientSecret j of
                       None \<Rightarrow> Inl ''No client secret returned from payment intent creation''
                     | Some secret \<Rightarrow>
                         if secret = []
                         then Inl ''No client secret returned from payment intent creation''
                         else Inr (secret, paymentIntentId j))))"

definition initializeStripePayment ::
  "gateway_faults \<Rightarrow> http_outcome \<Rightarrow> string \<Rightarrow> world \<Rightarrow> string \<Rightarrow> number \<Rightarrow> string option \<Rightarrow> string \<Rightarrow>
     (string \<times> nat) response \<times> world" where
  "initializeStripePayment f http now w userId amt promotedPollId cur =
     (let usdAmount = gateway_amount (gf_rate f) w amt cur ''USD'';
          (t, w1) = createTransaction (gf_create f) w userId
                      \<lparr>req_amount = usdAmount, req_currency = Some ''USD'',
                       req_payment_method = ''stripe'', req_promoted_poll_id = promotedPollId,
                       req_metadata = Some [''original_amount'' \<mapsto> MNum amt,
                                            ''original_currency'' \<mapsto> MStr cur]\<rparr>
      in if truthy_str (error t) then (\<lparr>data = None, error = error t\<rparr>, w1)
         else
           (case data t of
              None \<Rightarrow> (\<lparr>data = None, error = Some ''Failed to create transaction record''\<rparr>, w1)
            | Some transaction \<Rightarrow>
                (case create_payment_intent http of
                   Inr (secret, intentId) \<Rightarrow>
                     (let (u, w2) =
                            update_transaction (gf_update f) w1 (tx_id transaction)
                              (\<lambda>r. r\<lparr>stripe_payment_intent_id :=
                                        (case intentId of
                                           None \<Rightarrow> stripe_payment_intent_id r
                                         | Some i \<Rightarrow> Some i),
                                      metadata := (metadata transaction)
                                        (''payment_intent_id'' := map_option MStr intentId)\<rparr>)
                      in (\<lparr>data = Some (secret, tx_id transaction), error = None\<rparr>, w2))
                 | Inl m \<Rightarrow>
                     (let (u, w2) =
                            update_transaction (gf_update f) w1 (tx_id transaction)
                              (\<lambda>r. r\<lparr>tx_status := failed,
                                      metadata := (metadata transaction)(''error'' \<mapsto> MStr m),
                                      updated_at := Some now\<rparr>)
                      in (\<lparr>data = None, error = Some m\<rparr>, w2)))))"

text \<open>Lines 632 to 656: \<open>Inr\<close> is the authorization URL and the reference.\<close>

definition paystack_initiate_payment :: "http_outcome \<Rightarrow> string + string \<times> string option" where
  "paystack_initiate_payment http =
     (case http of
        Fetch_rejects m \<Rightarrow> Inl m
      | Http_response ok body \<Rightarrow>
          (case body of
             Json_rejects m \<Rightarrow> Inl m
           | Json_value j \<Rightarrow>
               if \<not> ok then Inl (str_or (j_error j) ''Failed to initialize Paystack payment'')
               else (case authorizationUrl j of
                       None \<Rightarrow> Inl ''No authorization URL returned from Paystack''
                     | Some url \<Rightarrow>
                         if url = [] then Inl ''No authorization URL returned from Paystack''
                         else Inr (url, reference j))))"

definition initializePaystackPayment ::
  "gateway_faults \<Rightarrow> http_outcome \<Rightarrow> string \<Rightarrow> world \<Rightarrow> string \<Rightarrow> number \<Rightarrow> string option \<Rightarrow> string \<Rightarrow>
     (string \<times> nat) response \<times> world" where
  "initializePaystackPayment f http now w userId amt promotedPollId cur =
     (let ngnAmount = gateway_amount (gf_rate f) w amt cur ''NGN'';
          (t, w1) = createTransaction (gf_create f) w userId
                      \<lparr>req_amount = ngnAmount, req_currency = Some ''NGN'',
                       req_payment_method = ''paystack'', req_promoted_poll_id = promotedPollId,
                       req_metadata = Some [''original_amount'' \<mapsto> MNum amt,
                                            ''original_currency'' \<mapsto> MStr cur]\<rparr>
      in if truthy_str (error t) then (\<lparr>data = None, error = error t\<rparr>, w1)
         else
           (case data t of
              None \<Rightarrow> (\<lparr>data = None, error = Some ''Failed to create transaction record''\<rparr>, w1)
            | Some transaction \<Rightarrow>
                (case paystack_initiate_payment http of
                   Inr (url, ref) \<Rightarrow>
                     (let (u, w2) =
                            update_transaction (gf_update f) w1 (tx_id transaction)
                              (\<lambda>r. r\<lparr>gateway_transaction_id :=
                                        (case ref of
                                           None \<Rightarrow> gateway_transaction_id r
                                         | Some i \<Rightarrow> Some i),
                                      metadata := (metadata transaction)
                                        (''paystack_reference'' := map_option MStr ref)\<rparr>)
                      in (\<lparr>data = Some (url, tx_id transaction), error = None\<rparr>, w2))
                 | Inl m \<Rightarrow>
                     (let (u, w2) =
                            update_transaction (gf_update f) w1 (tx_id transaction)
                              (\<lambda>r. r\<lparr>tx_status := failed,
                                      metadata := (metadata transaction)(''error'' \<mapsto> MStr m),
                                      updated_at := Some now\<rparr>)
                      in (\<lparr>data = None, error = Some m\<rparr>, w2)))))"

subsection \<open>Currency conversion helper\<close>

definition convertAmount :: "string option \<Rightarrow> world \<Rightarrow> number \<Rightarrow> string \<Rightarrow> string \<Rightarrow> number response" where
  "convertAmount fault w amt fromCurrency toCurrency =
     (if fromCurrency = toCurrency then \<lparr>data = Some amt, error = None\<rparr>
      else
        (let r = getExchangeRate fault w fromCurrency toCurrency;
             notFound = \<lparr>data = None,
                         error = Some (''Exchange rate not found for '' @ fromCurrency
                                       @ '' to '' @ toCurrency)\<rparr>
         in if truthy_str (error r) then \<lparr>data = None, error = error r\<rparr>
            else (case data r of
                    None \<Rightarrow> notFound
                  | Some rate \<Rightarrow>
                      if rate \<noteq> Num 0 \<and> rate \<noteq> NaN
                      then \<lparr>data = Some (js_mul amt rate), error = None\<rparr>
                      else notFound)))"

section \<open>The currency rule in the words of the specification\<close>

text \<open>
  What a method's configuration declares. A default currency that is the empty string
  declares nothing, as for the service.
\<close>

definition declares_supported :: "PaymentMethod \<Rightarrow> string list option" where
  "declares_supported m = (case config m of None \<Rightarrow> None | Some cfg \<Rightarrow> supported_currencies cfg)"

definition declares_default :: "PaymentMethod \<Rightarrow> string option" where
  "declares_default m =
     (case config m of
        None \<Rightarrow> None
      | Some cfg \<Rightarrow>
          (case default_currency cfg of None \<Rightarrow> None | Some d \<Rightarrow> if d = [] then None else Some d))"

text \<open>
  A method is kept for a currency when its supported currencies exist and contain it, or it
  has no supported currencies but its default currency equals it, or it declares neither.
\<close>

definition spec_currency_rule :: "string \<Rightarrow> PaymentMethod \<Rightarrow> bool" where
  "spec_currency_rule c m =
     ((\<exists>cs. declares_supported m = Some cs \<and> c \<in> set cs) \<or>
      (declares_supported m = None \<and> declares_default m = Some c) \<or>
      (declares_supported m = None \<and> declares_default m = None))"

definition country_enabled :: "world \<Rightarrow> string option \<Rightarrow> PaymentMethod \<Rightarrow> bool" where
  "country_enabled w countryCode m =
     (case gateway_settings w countryCode of None \<Rightarrow> False | Some ts \<Rightarrow> type m \<in> set ts)"

section \<open>Example stores and inputs\<close>

text \<open>
  One user with 10000 points who prefers EUR; 100 points to the dollar; the rate from EUR to
  USD is 1.1 as a number of the service, that is the double nearest to 11/10; pending rows
  only may be updated.
\<close>

definition example_world :: world where
  "example_world =
     \<lparr>payment_methods =
        [\<lparr>name = ''Wallet'', type = ''wallet'', is_active = True, config = None\<rparr>,
         \<lparr>name = ''Stripe'', type = ''stripe'', is_active = True,
          config = Some \<lparr>supported_currencies = Some [''USD'', ''NGN''], default_currency = None\<rparr>\<rparr>,
         \<lparr>name = ''Old wallet'', type = ''wallet'', is_active = False, config = None\<rparr>],
      transactions = Map.empty,
      next_id = 1,
      updatable = (\<lambda>r. tx_status r = pending),
      profiles = [''u1'' \<mapsto> \<lparr>points = Num 10000, profile_currency = Some ''EUR''\<rparr>],
      points_to_usd_conversion = Some (Num 100),
      exchange_rates = [(''EUR'', ''USD'') \<mapsto> double_of (11 / 10),
                        (''USD'', ''EUR'') \<mapsto> Num (1 / 2)],
      gateway_settings = [Some ''DE'' \<mapsto> [''wallet'', ''stripe'']]\<rparr>"

text \<open>
  A row that a webhook has already completed, and a store holding it under the key 7 and a
  pending row under the key 9.
\<close>

definition paid_row :: Transaction where
  "paid_row =
     \<lparr>tx_id = 7, user_id = ''u1'', promoted_poll_id = None,
      amount = Num 10, currency = ''USD'', original_amount = Num 5, original_currency = ''EUR'',
      payment_method = ''stripe'', tx_status = completed,
      gateway_transaction_id = Some ''pi_1'', stripe_payment_intent_id = Some ''pi_1'',
      metadata = Map.empty, updated_at = None\<rparr>"

definition paid_world :: world where
  "paid_world =
     example_world\<lparr>transactions := [7 \<mapsto> paid_row, 9 \<mapsto> paid_row\<lparr>tx_id := 9, tx_status := pending\<rparr>],
                   next_id := 10\<rparr>"

definition no_wallet_faults :: wallet_faults where
  "no_wallet_faults =
     \<lparr>wf_settings = None, wf_rate = None, wf_profile = None, wf_debit = None,
      wf_insert = None, wf_refund = None\<rparr>"

definition insert_failing :: wallet_faults where
  "insert_failing = no_wallet_faults\<lparr>wf_insert := Some ''insert failed''\<rparr>"

definition refund_failing :: wallet_faults where
  "refund_failing =
     no_wallet_faults\<lparr>wf_insert := Some ''insert failed'', wf_refund := Some ''profile update failed''\<rparr>"

definition no_create_faults :: create_faults where
  "no_create_faults = \<lparr>cf_profile = None, cf_rate = None, cf_insert = None\<rparr>"

definition no_update_faults :: update_faults where
  "no_update_faults = \<lparr>uf_update = None, uf_select = None\<rparr>"

definition no_gateway_faults :: gateway_faults where
  "no_gateway_faults = \<lparr>gf_rate = None, gf_create = no_create_faults, gf_update = None\<rparr>"

definition update_failing :: gateway_faults where
  "update_failing = no_gateway_faults\<lparr>gf_update := Some ''store unavailable''\<rparr>"

definition no_available_faults :: available_faults where
  "no_available_faults = \<lparr>af_settings = None, af_methods = None\<rparr>"

text \<open>A response with a non-OK status whose body carries an error text.\<close>

definition declined :: http_outcome where
  "declined =
     Http_response False
       (Json_value \<lparr>j_error = Some ''card declined'', clientSecret = None, paymentIntentId = None,
                    authorizationUrl = None, reference = None\<rparr>)"

definition usd_request :: "number \<Rightarrow> TransactionCreateRequest" where
  "usd_request a =
     \<lparr>req_amount = a, req_currency = Some ''USD'', req_payment_method = ''stripe'',
      req_promoted_poll_id = None, req_metadata = None\<rparr>"

text \<open>
  A rendering of numbers for the examples; it agrees with the conversion of the language on
  the non-negative integers below \<open>10 ^ 21\<close>.
\<close>

fun decimal :: "nat \<Rightarrow> string" where
  "decimal n =
     (if n < 10 then [''0123456789'' ! n]
      else decimal (n div 10) @ [''0123456789'' ! (n mod 10)])"

definition integer_toString :: "number \<Rightarrow> string" where
  "integer_toString x =
     (case x of
        Num a \<Rightarrow> decimal (nat \<lfloor>a\<rfloor>)
      | PInf \<Rightarrow> ''Infinity''
      | NInf \<Rightarrow> ''-Infinity''
      | NaN \<Rightarrow> ''NaN'')"

section \<open>The rounding to doubles\<close>

text \<open>
  The rounding is to a nearest value: \<open>exponent\<close> is the binary exponent, and a finite
  \<open>double_of x\<close> is an integer of at most 53 bits times the unit in the last place and lies
  within half that unit of \<open>x\<close>.
\<close>

lemma rne_nearest: "\<bar>of_int (rne q) - q\<bar> \<le> 1 / 2"
proof -
  have "of_int \<lfloor>q\<rfloor> \<le> q" "q < of_int \<lfloor>q\<rfloor> + 1" by linarith+
  then show ?thesis
    by (auto simp: rne_def Let_def abs_le_iff)
qed

lemma powi_Suc: "2 powi (k + 1) = 2 * (2 powi k :: rat)"
  by (simp add: power_int_add)

lemma exp_up_bounds:
  "1 \<le> a \<Longrightarrow> 2 powi (exp_up a e - e) \<le> a \<and> a < 2 powi (exp_up a e - e + 1)"
proof (induction a e rule: exp_up.induct)
  case (1 a e)
  show ?case
  proof (cases "a < 2")
    case True
    then have "exp_up a e = e" by (subst exp_up.simps) simp
    then show ?thesis using 1(2) True by simp
  next
    case False
    then have "1 \<le> a / 2" by simp
    from 1(1) [OF False this]
    have ih: "2 powi (exp_up (a / 2) (e + 1) - (e + 1)) \<le> a / 2"
      "a / 2 < 2 powi (exp_up (a / 2) (e + 1) - (e + 1) + 1)" by simp_all
    have eq: "exp_up a e = exp_up (a / 2) (e + 1)" using False by (subst exp_up.simps) simp
    define k where "k = exp_up (a / 2) (e + 1) - (e + 1)"
    have k: "exp_up (a / 2) (e + 1) - e = k + 1" by (simp add: k_def)
    have "2 powi k \<le> a / 2" "a / 2 < 2 powi (k + 1)" using ih by (simp_all add: k_def)
    then have "2 powi (k + 1) \<le> a" "a < 2 powi (k + 1 + 1)"
      unfolding powi_Suc by linarith+
    then show ?thesis by (simp only: eq k)
  qed
qed

lemma exp_down_bounds:
  "0 < a \<Longrightarrow> a < 1 \<Longrightarrow> 2 powi (exp_down a e - e) \<le> a \<and> a < 2 powi (exp_down a e - e + 1)"
proof (induction a e rule: exp_down.induct)
  case (1 a e)
  show ?case
  proof (cases "1 \<le> a * 2")
    case True
    have "exp_down a e = exp_down (a * 2) (e - 1)" using 1(2,3) by (subst exp_down.simps) simp
    also have "\<dots> = e - 1" using True by (subst exp_down.simps) simp
    finally have eq: "exp_down a e - e = - 1" by simp
    show ?thesis using True 1(3) by (simp add: eq)
  next
    case False
    then have lt: "a * 2 < 1" by simp
    have c: "\<not> (1 \<le> a \<or> a \<le> 0)" using 1(2,3) by simp
    have pos: "0 < a * 2" using 1(2) by simp
    from 1(1) [OF c pos lt]
    have ih: "2 powi (exp_down (a * 2) (e - 1) - (e - 1)) \<le> a * 2"
      "a * 2 < 2 powi (exp_down (a * 2) (e - 1) - (e - 1) + 1)" by simp_all
    have eq: "exp_down a e = exp_down (a * 2) (e - 1)" using c by (subst exp_down.simps) simp
    define k where "k = exp_down (a * 2) (e - 1) - e"
    have k: "exp_down (a * 2) (e - 1) - (e - 1) = k + 1" by (simp add: k_def)
    have "2 powi (k + 1) \<le> a * 2" "a * 2 < 2 powi (k + 1 + 1)" using ih by (simp_all only: k)
    then have "2 powi k \<le> a" "a < 2 powi (k + 1)"
      unfolding powi_Suc by linarith+
    then show ?thesis by (simp only: eq k_def [symmetric])
  qed
qed

lemma exponent_bounds:
  assumes "0 < a"
  shows "2 powi exponent a \<le> a \<and> a < 2 powi (exponent a + 1)"
proof (cases "1 \<le> a")
  case True
  then show ?thesis using exp_up_bounds [of a 0] by (simp add: exponent_def)
next
  case False
  then show ?thesis using exp_down_bounds [of a 0] assms by (simp add: exponent_def)
qed

lemma double_of_half_ulp:
  assumes "double_of x = Num r"
  defines "e \<equiv> max (exponent \<bar>x\<bar>) (- 1022)"
  shows "(\<exists>m. r = of_int m * 2 powi (e - 52) \<and> \<bar>m\<bar> \<le> 2 ^ 53) \<and> \<bar>r - x\<bar> \<le> 2 powi (e - 53)"
proof -
  define ulp :: rat where "ulp = 2 powi (e - 52)"
  define m where "m = rne (x / ulp)"
  have ulp: "0 < ulp" by (simp add: ulp_def)
  have r: "r = of_int m * ulp"
    using assms(1) by (auto simp: double_of_def Let_def m_def ulp_def e_def split: if_splits)
  have near: "\<bar>of_int m - x / ulp\<bar> \<le> 1 / 2" unfolding m_def by (rule rne_nearest)
  have "r - x = (of_int m - x / ulp) * ulp"
    using ulp by (simp add: r algebra_simps)
  then have "\<bar>r - x\<bar> = \<bar>of_int m - x / ulp\<bar> * ulp"
    using ulp by (simp only: abs_mult abs_of_pos)
  also have "\<dots> \<le> 1 / 2 * ulp" using near ulp by (simp add: mult_right_mono)
  also have "\<dots> = 2 powi (e - 53)"
  proof -
    have "e - 52 = (e - 53) + 1" by simp
    then have "ulp = 2 * 2 powi (e - 53)" unfolding ulp_def by (simp only: powi_Suc)
    then show ?thesis by simp
  qed
  finally have d: "\<bar>r - x\<bar> \<le> 2 powi (e - 53)" .
  have "\<bar>x\<bar> < 2 powi (e + 1)"
  proof (cases "x = 0")
    case True
    then show ?thesis by simp
  next
    case False
    then have "\<bar>x\<bar> < 2 powi (exponent \<bar>x\<bar> + 1)" using exponent_bounds [of "\<bar>x\<bar>"] by simp
    also have "\<dots> \<le> 2 powi (e + 1)" by (rule power_int_increasing) (simp_all add: e_def)
    finally show ?thesis .
  qed
  moreover have "2 powi (e + 1) = 2 ^ 53 * ulp"
  proof -
    have "(2::rat) powi (53 + (e - 52)) = 2 powi 53 * 2 powi (e - 52)"
      by (rule power_int_add) simp
    moreover have "53 + (e - 52) = e + 1" by simp
    moreover have "(2::rat) powi 53 = 2 ^ 53" by simp
    ultimately show ?thesis unfolding ulp_def by (simp only:)
  qed
  ultimately have "\<bar>x\<bar> < 2 ^ 53 * ulp" by simp
  then have "\<bar>x / ulp\<bar> < 2 ^ 53" using ulp by (simp add: abs_divide pos_divide_less_eq)
  with near have "\<bar>of_int m :: rat\<bar> < 2 ^ 53 + 1 / 2" by linarith
  then have "\<bar>of_int m :: rat\<bar> < of_int (2 ^ 53 + 1)" by simp
  then have "\<bar>m\<bar> < 2 ^ 53 + 1" by (simp only: of_int_abs [symmetric] of_int_less_iff)
  then have "\<bar>m\<bar> \<le> 2 ^ 53" by simp
  with r d show ?thesis unfolding ulp_def by blast
qed

text \<open>The double nearest to 1.1 is \<^verbatim>\<open>0x3FF199999999999A\<close>.\<close>

lemma double_of_rate: "double_of (11 / 10) = Num (4953959590107546 / 2 ^ 52)"
  by code_simp

section \<open>Arithmetic of the examples\<close>

lemma js_mul_50_rate:
  "js_mul (Num 50) (double_of (11 / 10)) = Num (7740561859543041 / 140737488355328)"
  by code_simp

lemma rate_truthy: "double_of (11 / 10) \<noteq> Num 0 \<and> double_of (11 / 10) \<noteq> NaN"
  by code_simp

lemma points_5500:
  "wallet_pointsNeeded (Num (7740561859543041 / 140737488355328)) (Num 100) = Num 5500"
  by code_simp

lemma points_500: "wallet_pointsNeeded (Num 5) (Num 100) = Num 500"
  by code_simp

lemma points_20000: "wallet_pointsNeeded (Num 200) (Num 100) = Num 20000"
  by code_simp

lemma js_mul_half: "js_mul (Num 100) (Num (1 / 2)) = Num 50" "js_mul (Num 80) (Num (1 / 2)) = Num 40"
  by code_simp+

lemma example_conversion: "wallet_pointsToUsdConversion f example_world = Num 100"
  by (simp add: wallet_pointsToUsdConversion_def getSettings_def num_or_def example_world_def
      split: option.splits)

lemma example_profile:
  "fetchProfileById None example_world ''u1''
     = \<lparr>data = Some \<lparr>points = Num 10000, profile_currency = Some ''EUR''\<rparr>, error = None\<rparr>"
  by (simp add: fetchProfileById_def example_world_def)

lemma example_amountInUSD:
  "wallet_amountInUSD no_wallet_faults example_world (Num 50) ''EUR''
     = Inr (Num (7740561859543041 / 140737488355328))"
  by (simp add: wallet_amountInUSD_def no_wallet_faults_def example_world_def getExchangeRate_def
      js_mul_50_rate rate_truthy Let_def)

lemma example_rate: "getExchangeRate None example_world ''USD'' ''EUR'' = \<lparr>data = Some (Num (1 / 2)), error = None\<rparr>"
  by (simp add: getExchangeRate_def example_world_def)

section \<open>Currency conversion\<close>

text \<open>
  C8. Converting an amount into its own currency succeeds with exactly that amount, whatever
  the store holds and whatever the rate lookup would report: the result does not depend on
  a lookup. Between distinct currencies, a lookup that yields no rate makes \<open>convertAmount\<close>
  return an error and no value.
\<close>

theorem convertAmount_same_currency_or_missing_rate:
  "convertAmount fault w x c c = \<lparr>data = Some x, error = None\<rparr> \<and>
   (c \<noteq> c' \<and> data (getExchangeRate fault w c c') = None \<longrightarrow>
      data (convertAmount fault w x c c') = None \<and> error (convertAmount fault w x c c') \<noteq> None)"
  by (auto simp: convertAmount_def Let_def truthy_str_def split: option.splits)

theorem convertAmount_same_currency_or_missing_rate_witness:
  "convertAmount (Some ''lookup down'') example_world (Num 7) ''EUR'' ''EUR''
     = \<lparr>data = Some (Num 7), error = None\<rparr> \<and>
   ''GBP'' \<noteq> ''USD'' \<and> data (getExchangeRate None example_world ''GBP'' ''USD'') = None \<and>
   data (convertAmount None example_world (Num 7) ''GBP'' ''USD'') = None \<and>
   error (convertAmount None example_world (Num 7) ''GBP'' ''USD'')
     = Some ''Exchange rate not found for GBP to USD''"
  using convertAmount_same_currency_or_missing_rate
          [of "Some ''lookup down''" example_world "Num 7" "''EUR''"]
        convertAmount_same_currency_or_missing_rate
          [of None example_world "Num 7" "''GBP''" "''USD''"]
  by (simp add: convertAmount_def getExchangeRate_def example_world_def truthy_str_def)

section \<open>Wallet payment\<close>

text \<open>
  C4. When the rate step has passed and the fetched profile holds strictly fewer points than
  \<open>pointsNeeded\<close>, which is \<open>wallet_pointsNeeded\<close>, the rounding of the USD amount times the
  points-per-USD rate, \<open>processWalletPayment\<close> returns the message that names both the points
  needed and the points available, and the store is left as it was, whatever the faults of
  the debit and of the insert are: neither is issued.
\<close>

theorem insufficient_points_no_mutation:
  assumes "wallet_amountInUSD f w amt cur = Inr amountInUSD"
    and "data (fetchProfileById (wf_profile f) w userId) = Some profile"
    and "\<not> truthy_str (error (fetchProfileById (wf_profile f) w userId))"
    and "js_less (points profile) (wallet_pointsNeeded amountInUSD (wallet_pointsToUsdConversion f w))"
  shows "processWalletPayment toString f w userId amt promotedPollId cur =
           (\<lparr>data = None,
             error = Some (''Insufficient points. You need ''
                           @ toString (wallet_pointsNeeded amountInUSD (wallet_pointsToUsdConversion f w))
                           @ '' points ('' @ toString (points profile) @ '' available).'')\<rparr>, w)"
  using assms by (simp add: processWalletPayment_def Let_def)

text \<open>The user of the example has 10000 points and asks for 200 dollars.\<close>

theorem insufficient_points_no_mutation_witness:
  "processWalletPayment integer_toString no_wallet_faults example_world ''u1'' (Num 200) None ''USD''
     = (\<lparr>data = None,
         error = Some ''Insufficient points. You need 20000 points (10000 available).''\<rparr>,
        example_world)"
proof -
  have a: "wallet_amountInUSD no_wallet_faults example_world (Num 200) ''USD'' = Inr (Num 200)"
    by (simp add: wallet_amountInUSD_def)
  have p: "data (fetchProfileById (wf_profile no_wallet_faults) example_world ''u1'')
             = Some \<lparr>points = Num 10000, profile_currency = Some ''EUR''\<rparr>"
    by (simp add: no_wallet_faults_def example_profile)
  have e: "\<not> truthy_str (error (fetchProfileById (wf_profile no_wallet_faults) example_world ''u1''))"
    by (simp add: no_wallet_faults_def example_profile truthy_str_def)
  have l: "js_less (points \<lparr>points = Num 10000, profile_currency = Some ''EUR''\<rparr>)
             (wallet_pointsNeeded (Num 200) (wallet_pointsToUsdConversion no_wallet_faults example_world))"
    by (simp add: example_conversion points_20000)
  show ?thesis
    using insufficient_points_no_mutation [OF a p e l, of integer_toString None]
    by (simp add: example_conversion points_20000 integer_toString_def)
qed

text \<open>
  C10. With a currency other than USD and a rate lookup that reports no error and no rate,
  \<open>processWalletPayment\<close> goes on with the amount unchanged as its USD amount: with points
  enough and no fault in the later steps it succeeds with a completed row whose amount is the
  input amount, in USD. \<open>convertAmount\<close> on the same lookup returns an error.
\<close>

theorem wallet_missing_rate_is_one_to_one:
  assumes "cur \<noteq> ''USD''"
    and "\<not> truthy_str (error (getExchangeRate (wf_rate f) w cur ''USD''))"
    and "data (getExchangeRate (wf_rate f) w cur ''USD'') = None"
  shows "wallet_amountInUSD f w amt cur = Inr amt \<and>
         convertAmount (wf_rate f) w amt cur ''USD''
           = \<lparr>data = None, error = Some (''Exchange rate not found for '' @ cur @ '' to USD'')\<rparr> \<and>
         (wf_profile f = None \<and> profiles w userId = Some profile \<and>
          \<not> js_less (points profile) (wallet_pointsNeeded amt (wallet_pointsToUsdConversion f w)) \<and>
          wf_debit f = None \<and> wf_insert f = None \<longrightarrow>
            (\<exists>row. fst (processWalletPayment toString f w userId amt promotedPollId cur)
                     = \<lparr>data = Some row, error = None\<rparr> \<and>
                   amount row = amt \<and> currency row = ''USD'' \<and>
                   original_amount row = amt \<and> original_currency row = cur \<and>
                   tx_status row = completed))"
proof -
  have a: "wallet_amountInUSD f w amt cur = Inr amt"
    using assms by (auto simp: wallet_amountInUSD_def Let_def truthy_str_def split: option.splits)
  have c: "convertAmount (wf_rate f) w amt cur ''USD''
           = \<lparr>data = None, error = Some (''Exchange rate not found for '' @ cur @ '' to USD'')\<rparr>"
    using assms by (simp add: convertAmount_def Let_def)
  show ?thesis
    using a c
    by (simp add: processWalletPayment_def Let_def fetchProfileById_def truthy_str_def
        updateUserPoints_def insert_transaction_def wallet_row_def split: prod.splits)
qed

text \<open>The example store has no rate from GBP to USD.\<close>

theorem wallet_missing_rate_is_one_to_one_witness:
  "wallet_amountInUSD no_wallet_faults example_world (Num 5) ''GBP'' = Inr (Num 5) \<and>
   convertAmount None example_world (Num 5) ''GBP'' ''USD''
     = \<lparr>data = None, error = Some ''Exchange rate not found for GBP to USD''\<rparr> \<and>
   (\<exists>row. fst (processWalletPayment integer_toString no_wallet_faults example_world ''u1'' (Num 5) None ''GBP'')
            = \<lparr>data = Some row, error = None\<rparr> \<and>
          amount row = Num 5 \<and> currency row = ''USD'' \<and>
          original_amount row = Num 5 \<and> original_currency row = ''GBP'' \<and>
          tx_status row = completed)"
proof -
  have c: "''GBP'' \<noteq> ''USD''" by simp
  have e: "\<not> truthy_str (error (getExchangeRate (wf_rate no_wallet_faults) example_world ''GBP'' ''USD''))"
    by (simp add: getExchangeRate_def no_wallet_faults_def truthy_str_def)
  have d: "data (getExchangeRate (wf_rate no_wallet_faults) example_world ''GBP'' ''USD'') = None"
    by (simp add: getExchangeRate_def no_wallet_faults_def example_world_def)
  have p: "profiles example_world ''u1'' = Some \<lparr>points = Num 10000, profile_currency = Some ''EUR''\<rparr>"
    by (simp add: example_world_def)
  show ?thesis
    using wallet_missing_rate_is_one_to_one [OF c e d, of "Num 5" "''u1''"
        "\<lparr>points = Num 10000, profile_currency = Some ''EUR''\<rparr>" integer_toString None] p
    by (simp add: example_conversion points_500 no_wallet_faults_def)
qed

text \<open>
  C9. For the amount 50 in EUR, 100 points to the dollar and the rate 1.1 from EUR to USD,
  \<open>processWalletPayment\<close> computes the USD amount \<open>50 * 1.1\<close>, which in the arithmetic of the
  service is \<open>55 + 2 ^ -47\<close> (printed 55.00000000000001), and needs 5500 points, the rounding
  of that amount times 100; the row it inserts stores both.
\<close>

theorem wallet_scenario_points:
  "wallet_amountInUSD no_wallet_faults example_world (Num 50) ''EUR'' = Inr (Num (55 + 1 / 2 ^ 47)) \<and>
   wallet_pointsNeeded (Num (55 + 1 / 2 ^ 47))
     (wallet_pointsToUsdConversion no_wallet_faults example_world) = Num 5500 \<and>
   (\<exists>row. fst (processWalletPayment toString no_wallet_faults example_world ''u1'' (Num 50) None ''EUR'')
            = \<lparr>data = Some row, error = None\<rparr> \<and>
          amount row = Num (55 + 1 / 2 ^ 47) \<and>
          metadata row ''points_used'' = Some (MNum (Num 5500)))"
proof -
  have v: "(55 + 1 / 2 ^ 47 :: rat) = 7740561859543041 / 140737488355328" by simp
  have p: "fetchProfileById (wf_profile no_wallet_faults) example_world ''u1''
     = \<lparr>data = Some \<lparr>points = Num 10000, profile_currency = Some ''EUR''\<rparr>, error = None\<rparr>"
    by (simp add: no_wallet_faults_def example_profile)
  have d: "wf_debit no_wallet_faults = None" "wf_insert no_wallet_faults = None"
    by (simp_all add: no_wallet_faults_def)
  have u: "profiles example_world ''u1'' = Some \<lparr>points = Num 10000, profile_currency = Some ''EUR''\<rparr>"
    by (simp add: example_world_def)
  have "\<exists>row. fst (processWalletPayment toString no_wallet_faults example_world ''u1'' (Num 50) None ''EUR'')
            = \<lparr>data = Some row, error = None\<rparr> \<and>
          amount row = Num (7740561859543041 / 140737488355328) \<and>
          metadata row ''points_used'' = Some (MNum (Num 5500))"
    by (simp add: processWalletPayment_def Let_def example_amountInUSD example_conversion
        points_5500 p d u truthy_str_def updateUserPoints_def insert_transaction_def wallet_row_def)
  then show ?thesis
    by (simp add: example_amountInUSD example_conversion points_5500)
qed

text \<open>C9 as stated has the USD amount equal to 55; it is not.\<close>

theorem wallet_scenario_amount_is_not_55:
  "wallet_amountInUSD no_wallet_faults example_world (Num 50) ''EUR'' \<noteq> Inr (Num 55)"
  by (simp add: example_amountInUSD)

text \<open>
  C1. Take an execution that reaches the debit, with a finite balance and a finite number of
  points needed, and in which a failing debit reports a non-empty message. When the debit
  goes through and the insert fails with the message \<open>m\<close>, the result is the error \<open>m\<close>, and
  when the refund call then succeeds the store is as it was before the payment. In every
  case the store is as before, or a completed row is persisted and returned, or both the
  insert and the refund failed: the outcome of the refund is not looked at.
\<close>

theorem wallet_debit_is_compensated:
  fixes toString f w userId amt promotedPollId cur
  defines "R \<equiv> processWalletPayment toString f w userId amt promotedPollId cur"
  assumes "wallet_amountInUSD f w amt cur = Inr amountInUSD"
    and "data (fetchProfileById (wf_profile f) w userId) = Some profile"
    and "\<not> truthy_str (error (fetchProfileById (wf_profile f) w userId))"
    and "\<not> js_less (points profile) (wallet_pointsNeeded amountInUSD (wallet_pointsToUsdConversion f w))"
    and "points profile = Num a"
    and "wallet_pointsNeeded amountInUSD (wallet_pointsToUsdConversion f w) = Num b"
    and "wf_debit f \<noteq> Some []"
  shows "(wf_debit f = None \<and> wf_insert f = Some m \<longrightarrow>
           fst R = \<lparr>data = None, error = Some m\<rparr> \<and> (wf_refund f = None \<longrightarrow> snd R = w)) \<and>
         (snd R = w \<or>
          (\<exists>row. fst R = \<lparr>data = Some row, error = None\<rparr> \<and>
                 transactions (snd R) (tx_id row) = Some row \<and> tx_status row = completed) \<or>
          (wf_insert f \<noteq> None \<and> wf_refund f \<noteq> None))"
proof -
  have p: "profiles w userId = Some profile" "wf_profile f = None"
    using assms(3) by (auto simp: fetchProfileById_def split: option.splits)
  show ?thesis
    unfolding R_def
    using assms(2-) p
    by (auto simp: processWalletPayment_def Let_def updateUserPoints_def insert_transaction_def
        truthy_str_def fetchProfileById_def fun_upd_idem wallet_row_def
        split: option.splits prod.splits)
qed

text \<open>The insert fails and the refund goes through: 500 points are taken and given back.\<close>

theorem wallet_debit_is_compensated_witness:
  "processWalletPayment integer_toString insert_failing example_world ''u1'' (Num 5) None ''USD''
     = (\<lparr>data = None, error = Some ''insert failed''\<rparr>, example_world)"
proof -
  let ?p = "\<lparr>points = Num 10000, profile_currency = Some ''EUR''\<rparr>"
  have h1: "wallet_amountInUSD insert_failing example_world (Num 5) ''USD'' = Inr (Num 5)"
    by (simp add: wallet_amountInUSD_def)
  have h2: "data (fetchProfileById (wf_profile insert_failing) example_world ''u1'') = Some ?p"
    by (simp add: insert_failing_def no_wallet_faults_def example_profile)
  have h3: "\<not> truthy_str (error (fetchProfileById (wf_profile insert_failing) example_world ''u1''))"
    by (simp add: insert_failing_def no_wallet_faults_def example_profile truthy_str_def)
  have h4: "\<not> js_less (points ?p)
              (wallet_pointsNeeded (Num 5) (wallet_pointsToUsdConversion insert_failing example_world))"
    by (simp add: example_conversion points_500)
  have h5: "points ?p = Num 10000" by simp
  have h6: "wallet_pointsNeeded (Num 5) (wallet_pointsToUsdConversion insert_failing example_world) = Num 500"
    by (simp add: example_conversion points_500)
  have h7: "wf_debit insert_failing \<noteq> Some []"
    by (simp add: insert_failing_def no_wallet_faults_def)
  have f: "wf_debit insert_failing = None" "wf_insert insert_failing = Some ''insert failed''"
    "wf_refund insert_failing = None"
    by (simp_all add: insert_failing_def no_wallet_faults_def)
  from wallet_debit_is_compensated [OF h1 h2 h3 h4 h5 h6 h7, of "''insert failed''" integer_toString None] f
  have "fst (processWalletPayment integer_toString insert_failing example_world ''u1'' (Num 5) None ''USD'')
          = \<lparr>data = None, error = Some ''insert failed''\<rparr>"
    and "snd (processWalletPayment integer_toString insert_failing example_world ''u1'' (Num 5) None ''USD'')
          = example_world"
    by simp_all
  then show ?thesis by (simp add: prod_eq_iff)
qed

text \<open>
  C1 as stated fails when the refund call fails too: the error of the insert is reported,
  the balance has gone from 10000 to 9500 and no row is stored.
\<close>

theorem wallet_refund_failure_leaves_points_debited:
  "fst (processWalletPayment integer_toString refund_failing example_world ''u1'' (Num 5) None ''USD'')
     = \<lparr>data = None, error = Some ''insert failed''\<rparr> \<and>
   map_option points (profiles example_world ''u1'') = Some (Num 10000) \<and>
   map_option points
     (profiles (snd (processWalletPayment integer_toString refund_failing example_world ''u1'' (Num 5) None ''USD''))
        ''u1'') = Some (Num 9500) \<and>
   transactions (snd (processWalletPayment integer_toString refund_failing example_world ''u1'' (Num 5) None ''USD''))
     = Map.empty"
proof -
  have p: "fetchProfileById (wf_profile refund_failing) example_world ''u1''
     = \<lparr>data = Some \<lparr>points = Num 10000, profile_currency = Some ''EUR''\<rparr>, error = None\<rparr>"
    by (simp add: refund_failing_def no_wallet_faults_def example_profile)
  have d: "wf_debit refund_failing = None" "wf_insert refund_failing = Some ''insert failed''"
    "wf_refund refund_failing = Some ''profile update failed''"
    by (simp_all add: refund_failing_def no_wallet_faults_def)
  have u: "profiles example_world ''u1'' = Some \<lparr>points = Num 10000, profile_currency = Some ''EUR''\<rparr>"
    "transactions example_world = Map.empty"
    by (simp_all add: example_world_def)
  show ?thesis
    by (simp add: processWalletPayment_def Let_def wallet_amountInUSD_def example_conversion
        points_500 p d u truthy_str_def updateUserPoints_def insert_transaction_def)
qed

section \<open>Status update\<close>

text \<open>
  C2. Without a fault of the store, \<open>updateTransactionStatus\<close> on a key whose row is in a final
  status and is not changed by the update (the update matches no row) re-reads the row and
  succeeds with it, the store unchanged. The error "Transaction not found" comes only from
  an update that matches no row followed by a re-read that finds no row or a row that is
  not in a final status, and in that case it does come. A call that has succeeded with a
  final status succeeds again on the store it leaves, with a row in the same status.
\<close>

theorem updateTransactionStatus_idempotent:
  fixes f now w i st g
  defines "R \<equiv> updateTransactionStatus f now w i st g"
  shows
   "(uf_update f = None \<and> uf_select f = None \<and> transactions w i = Some r \<and> \<not> updatable w r \<and>
     tx_status r \<in> {completed, failed, refunded} \<longrightarrow>
       R = (\<lparr>data = Some r, error = None\<rparr>, w)) \<and>
    (uf_update f \<noteq> Some ''Transaction not found'' \<and> uf_select f \<noteq> Some ''Transaction not found'' \<and>
     error (fst R) = Some ''Transaction not found'' \<longrightarrow>
       uf_update f = None \<and> uf_select f = None \<and>
       (transactions w i = None \<or>
        (\<exists>r. transactions w i = Some r \<and> \<not> updatable w r \<and>
             tx_status r \<notin> {completed, failed, refunded}))) \<and>
    (uf_update f = None \<and> uf_select f = None \<and>
     (transactions w i = None \<or>
      (\<exists>r. transactions w i = Some r \<and> \<not> updatable w r \<and>
           tx_status r \<notin> {completed, failed, refunded})) \<longrightarrow>
       R = (\<lparr>data = None, error = Some ''Transaction not found''\<rparr>, w)) \<and>
    (uf_update f = None \<and> uf_select f = None \<and> st \<noteq> pending \<and> data (fst R) = Some t1 \<longrightarrow>
       (\<exists>t2. fst (updateTransactionStatus f now' (snd R) i st g) = \<lparr>data = Some t2, error = None\<rparr> \<and>
             tx_status t2 = tx_status t1))"
proof -
  have a: "R = (\<lparr>data = Some r, error = None\<rparr>, w)"
    if "uf_update f = None" "uf_select f = None" "transactions w i = Some r" "\<not> updatable w r"
      "tx_status r \<in> {completed, failed, refunded}"
    using that unfolding R_def
    by (auto simp: updateTransactionStatus_def update_transaction_def select_transaction_def Let_def)
  have b: "uf_update f = None \<and> uf_select f = None \<and>
       (transactions w i = None \<or>
        (\<exists>r. transactions w i = Some r \<and> \<not> updatable w r \<and>
             tx_status r \<notin> {completed, failed, refunded}))"
    if "uf_update f \<noteq> Some ''Transaction not found''" "uf_select f \<noteq> Some ''Transaction not found''"
      "error (fst R) = Some ''Transaction not found''"
    using that unfolding R_def
    by (cases "uf_update f"; cases "uf_select f"; cases "transactions w i")
       (auto simp: updateTransactionStatus_def update_transaction_def select_transaction_def Let_def
             split: if_splits)
  have c: "R = (\<lparr>data = None, error = Some ''Transaction not found''\<rparr>, w)"
    if "uf_update f = None" "uf_select f = None"
      "transactions w i = None \<or>
        (\<exists>r. transactions w i = Some r \<and> \<not> updatable w r \<and>
             tx_status r \<notin> {completed, failed, refunded})"
    using that unfolding R_def
    by (auto simp: updateTransactionStatus_def update_transaction_def select_transaction_def Let_def)
  have d: "\<exists>t2. fst (updateTransactionStatus f now' (snd R) i st g) = \<lparr>data = Some t2, error = None\<rparr> \<and>
             tx_status t2 = tx_status t1"
    if "uf_update f = None" "uf_select f = None" "st \<noteq> pending" "data (fst R) = Some t1"
    using that unfolding R_def
    by (cases "transactions w i"; cases st)
       (auto simp: updateTransactionStatus_def update_transaction_def select_transaction_def Let_def
             split: if_splits)
  from a b c d show ?thesis by blast
qed


text \<open>
  In the example store, row 7 is completed already, key 8 is free, and row 9 is pending:
  the first call completes it and the second finds it completed.
\<close>

theorem updateTransactionStatus_idempotent_witness:
  "updateTransactionStatus no_update_faults ''2026-01-01'' paid_world 7 completed None
     = (\<lparr>data = Some paid_row, error = None\<rparr>, paid_world) \<and>
   updateTransactionStatus no_update_faults ''2026-01-01'' paid_world 8 completed None
     = (\<lparr>data = None, error = Some ''Transaction not found''\<rparr>, paid_world) \<and>
   (\<exists>t2. fst (updateTransactionStatus no_update_faults ''2026-01-02''
                (snd (updateTransactionStatus no_update_faults ''2026-01-01'' paid_world 9 completed None))
                9 completed None)
            = \<lparr>data = Some t2, error = None\<rparr> \<and>
          tx_status t2 = completed)"
proof -
  note T = updateTransactionStatus_idempotent [where f = no_update_faults and w = paid_world
      and now = "''2026-01-01''" and st = completed and g = None]
  have f: "uf_update no_update_faults = None" "uf_select no_update_faults = None"
    by (simp_all add: no_update_faults_def)
  have r7: "transactions paid_world 7 = Some paid_row" "\<not> updatable paid_world paid_row"
    "tx_status paid_row \<in> {completed, failed, refunded}"
    by (simp_all add: paid_world_def paid_row_def example_world_def)
  have r8: "transactions paid_world 8 = None"
    by (simp add: paid_world_def)
  have r9: "data (fst (updateTransactionStatus no_update_faults ''2026-01-01'' paid_world 9 completed None))
              = Some (paid_row\<lparr>tx_id := 9, tx_status := completed, updated_at := Some ''2026-01-01''\<rparr>)"
    by (simp add: updateTransactionStatus_def update_transaction_def Let_def f truthy_str_def
        paid_world_def paid_row_def example_world_def)
  have 1: "updateTransactionStatus no_update_faults ''2026-01-01'' paid_world 7 completed None
     = (\<lparr>data = Some paid_row, error = None\<rparr>, paid_world)"
    by (rule T [where i = 7, THEN conjunct1, rule_format]) (insert f r7, simp)
  have 2: "updateTransactionStatus no_update_faults ''2026-01-01'' paid_world 8 completed None
     = (\<lparr>data = None, error = Some ''Transaction not found''\<rparr>, paid_world)"
    by (rule T [where i = 8, THEN conjunct2, THEN conjunct2, THEN conjunct1, rule_format])
       (simp add: f r8)
  have 3: "\<exists>t2. fst (updateTransactionStatus no_update_faults ''2026-01-02''
                (snd (updateTransactionStatus no_update_faults ''2026-01-01'' paid_world 9 completed None))
                9 completed None)
            = \<lparr>data = Some t2, error = None\<rparr> \<and>
          tx_status t2 = completed"
    using T [where i = 9 and now' = "''2026-01-02''", THEN conjunct2, THEN conjunct2, THEN conjunct2,
        rule_format, OF conjI [OF f(1) conjI [OF f(2) conjI [OF _ r9]]]]
    by simp
  from 1 2 3 show ?thesis by simp
qed

section \<open>Payment method lookup\<close>

text \<open>
  C7. A successful \<open>getAvailablePaymentMethods\<close> with a non-empty currency returns exactly the
  active methods of the store that are enabled for the country and kept by the rule of the
  specification. For EUR a method declaring the supported currencies USD and NGN is
  left out, and an enabled active method with no configuration is always in. (Faults are
  taken to carry a non-empty message, so that a successful call has seen both lookups
  succeed.)
\<close>

theorem available_methods_currency_filter:
  assumes "c \<noteq> []"
    and "af_settings f \<noteq> Some []" and "af_methods f \<noteq> Some []"
    and "getAvailablePaymentMethods f w countryCode (Some c) = \<lparr>data = Some ms, error = None\<rparr>"
  shows "set ms = {m \<in> set (payment_methods w).
                    is_active m \<and> country_enabled w countryCode m \<and> spec_currency_rule c m} \<and>
         (\<forall>m. c = ''EUR'' \<and> declares_supported m = Some [''USD'', ''NGN''] \<longrightarrow> m \<notin> set ms) \<and>
         (\<forall>m \<in> set (payment_methods w).
            is_active m \<and> country_enabled w countryCode m \<and> config m = None \<longrightarrow> m \<in> set ms)"
proof -
  have rule: "supports_currency c m = spec_currency_rule c m" for m
    by (auto simp: supports_currency_def spec_currency_rule_def declares_supported_def
        declares_default_def split: option.splits if_splits)
  have s: "af_settings f = None"
    using assms(2,4)
    by (cases "af_settings f")
       (auto simp: getAvailablePaymentMethods_def getPaymentGatewaySettings_def Let_def truthy_str_def)
  have m: "af_methods f = None"
    using assms(3,4) s
    by (cases "af_methods f")
       (auto simp: getAvailablePaymentMethods_def getPaymentGatewaySettings_def getPaymentMethods_def
          select_active_methods_def Let_def truthy_str_def)
  have ms: "ms = filter (\<lambda>m. country_enabled w countryCode m \<and> spec_currency_rule c m)
                   (sort_key name (filter is_active (payment_methods w)))"
    using assms(1,4) s m
    by (auto simp: getAvailablePaymentMethods_def getPaymentGatewaySettings_def getPaymentMethods_def
        select_active_methods_def Let_def truthy_str_def country_enabled_def rule
        split: option.splits intro: filter_cong)
  have 1: "set ms = {m \<in> set (payment_methods w).
                    is_active m \<and> country_enabled w countryCode m \<and> spec_currency_rule c m}"
    by (auto simp: ms)
  have 2: "m \<notin> set ms" if "c = ''EUR''" "declares_supported m = Some [''USD'', ''NGN'']" for m
    using that by (auto simp: 1 spec_currency_rule_def)
  have 3: "m \<in> set ms"
    if "m \<in> set (payment_methods w)" "is_active m" "country_enabled w countryCode m" "config m = None" for m
    using that by (auto simp: 1 spec_currency_rule_def declares_supported_def declares_default_def)
  from 1 2 3 show ?thesis by blast
qed

text \<open>In the example store Germany has the wallet and Stripe, and Stripe declares USD and NGN.\<close>

theorem available_methods_currency_filter_witness:
  "getAvailablePaymentMethods no_available_faults example_world (Some ''DE'') (Some ''EUR'')
     = \<lparr>data = Some [\<lparr>name = ''Wallet'', type = ''wallet'', is_active = True, config = None\<rparr>],
        error = None\<rparr> \<and>
   set [\<lparr>name = ''Wallet'', type = ''wallet'', is_active = True, config = None\<rparr>]
     = {m \<in> set (payment_methods example_world).
          is_active m \<and> country_enabled example_world (Some ''DE'') m \<and> spec_currency_rule ''EUR'' m}"
proof -
  have c: "''EUR'' \<noteq> []" by simp
  have f: "af_settings no_available_faults \<noteq> Some []" "af_methods no_available_faults \<noteq> Some []"
    by (simp_all add: no_available_faults_def)
  have e: "getAvailablePaymentMethods no_available_faults example_world (Some ''DE'') (Some ''EUR'')
     = \<lparr>data = Some [\<lparr>name = ''Wallet'', type = ''wallet'', is_active = True, config = None\<rparr>],
        error = None\<rparr>"
    by (simp add: getAvailablePaymentMethods_def getPaymentGatewaySettings_def getPaymentMethods_def
        select_active_methods_def example_world_def no_available_faults_def truthy_str_def
        supports_currency_def Let_def)
  from available_methods_currency_filter [OF c f e] e show ?thesis by blast
qed

section \<open>Transaction creation\<close>

text \<open>
  C5. When the insert goes through, \<open>createTransaction\<close> stores and returns a pending row whose
  \<open>amount\<close> and \<open>currency\<close> are those of the request (USD when the request names no
  currency) and whose \<open>original_currency\<close> is the user's preferred currency (USD when the
  profile names none). When the two currencies differ and the lookup yields a rate other
  than zero, \<open>original_amount\<close> is the request amount times that rate, the amount in the
  user's currency; when they agree or there is no such rate, it is the request amount.
\<close>

theorem createTransaction_stores_request_and_user_view:
  fixes f w userId transactionData
  defines "R \<equiv> createTransaction f w userId transactionData"
  assumes "cf_insert f = None"
  shows "\<exists>row. fst R = \<lparr>data = Some row, error = None\<rparr> \<and>
           transactions (snd R) (tx_id row) = Some row \<and>
           tx_status row = pending \<and>
           amount row = req_amount transactionData \<and>
           currency row = str_or (req_currency transactionData) ''USD'' \<and>
           original_currency row = userCurrency (fetchProfileById (cf_profile f) w userId) \<and>
           (\<forall>rate. currency row \<noteq> original_currency row \<and>
                   data (getExchangeRate (cf_rate f) w (currency row) (original_currency row)) = Some rate \<and>
                   truthy_num (Some rate) \<longrightarrow>
                     original_amount row = js_mul (req_amount transactionData) rate) \<and>
           (currency row = original_currency row \<or>
            \<not> truthy_num (data (getExchangeRate (cf_rate f) w (currency row) (original_currency row))) \<longrightarrow>
              original_amount row = req_amount transactionData)"
  using assms(2-) unfolding R_def
  by (auto simp: createTransaction_def insert_transaction_def Let_def create_originalAmount_def
      truthy_num_def split: option.splits)

text \<open>The user prefers EUR, the request is 100 USD and a dollar is half a euro in the example.\<close>

theorem createTransaction_stores_request_and_user_view_witness:
  "\<exists>row. fst (createTransaction no_create_faults example_world ''u1'' (usd_request (Num 100)))
           = \<lparr>data = Some row, error = None\<rparr> \<and>
         tx_status row = pending \<and>
         amount row = Num 100 \<and> currency row = ''USD'' \<and>
         original_amount row = Num 50 \<and> original_currency row = ''EUR''"
proof -
  have i: "cf_insert no_create_faults = None" by (simp add: no_create_faults_def)
  have p: "fetchProfileById (cf_profile no_create_faults) example_world ''u1''
     = \<lparr>data = Some \<lparr>points = Num 10000, profile_currency = Some ''EUR''\<rparr>, error = None\<rparr>"
    by (simp add: no_create_faults_def example_profile)
  have r: "getExchangeRate (cf_rate no_create_faults) example_world ''USD'' ''EUR''
     = \<lparr>data = Some (Num (1 / 2)), error = None\<rparr>"
    by (simp add: no_create_faults_def example_rate)
  from createTransaction_stores_request_and_user_view [OF i, of example_world "''u1''" "usd_request (Num 100)"]
  obtain row where row:
    "fst (createTransaction no_create_faults example_world ''u1'' (usd_request (Num 100)))
       = \<lparr>data = Some row, error = None\<rparr>"
    "tx_status row = pending" "amount row = req_amount (usd_request (Num 100))"
    "currency row = str_or (req_currency (usd_request (Num 100))) ''USD''"
    "original_currency row = userCurrency (fetchProfileById (cf_profile no_create_faults) example_world ''u1'')"
    "\<forall>rate. currency row \<noteq> original_currency row \<and>
                   data (getExchangeRate (cf_rate no_create_faults) example_world (currency row) (original_currency row)) = Some rate \<and>
                   truthy_num (Some rate) \<longrightarrow>
                     original_amount row = js_mul (req_amount (usd_request (Num 100))) rate"
    by blast
  have c: "currency row = ''USD''" "original_currency row = ''EUR''" "amount row = Num 100"
    using row(3,4,5) by (simp_all add: usd_request_def str_or_def userCurrency_def p)
  have "original_amount row = js_mul (Num 100) (Num (1 / 2))"
    using row(6) [rule_format, of "Num (1 / 2)"] c
    by (simp add: r truthy_num_def usd_request_def)
  with row(1,2) c show ?thesis by (simp add: js_mul_half del: js_mul.simps)
qed

text \<open>
  C5 as stated puts the converted value under \<open>amount\<close> and the request value under
  \<open>original_amount\<close>; for a request of 80 USD the row has 80 under \<open>amount\<close> and the
  converted 40 under \<open>original_amount\<close>.
\<close>

theorem createTransaction_amount_is_request_value:
  "map_option amount (data (fst (createTransaction no_create_faults example_world ''u1'' (usd_request (Num 80)))))
     = Some (Num 80) \<and>
   map_option original_amount
     (data (fst (createTransaction no_create_faults example_world ''u1'' (usd_request (Num 80)))))
     = Some (Num 40) \<and>
   req_amount (usd_request (Num 80)) = Num 80 \<and>
   js_mul (Num 80) (Num (1 / 2)) = Num 40"
proof -
  have p: "fetchProfileById (cf_profile no_create_faults) example_world ''u1''
     = \<lparr>data = Some \<lparr>points = Num 10000, profile_currency = Some ''EUR''\<rparr>, error = None\<rparr>"
    by (simp add: no_create_faults_def example_profile)
  have r: "getExchangeRate (cf_rate no_create_faults) example_world ''USD'' ''EUR''
     = \<lparr>data = Some (Num (1 / 2)), error = None\<rparr>"
    by (simp add: no_create_faults_def example_rate)
  have i: "cf_insert no_create_faults = None" by (simp add: no_create_faults_def)
  show ?thesis
    by (simp add: createTransaction_def create_originalAmount_def Let_def p r i userCurrency_def
        str_or_def usd_request_def insert_transaction_def js_mul_half del: js_mul.simps)
qed

section \<open>The amount fields of inserted rows\<close>









section \<open>Gateway initiation\<close>

lemma stripe_failure:
  fixes f http now w userId amt promotedPollId cur
  defines "R \<equiv> initializeStripePayment f http now w userId amt promotedPollId cur"
  assumes "create_payment_intent http = Inl m"
    and "cf_insert (gf_create f) = None"
  shows "fst R = \<lparr>data = None, error = Some m\<rparr> \<and>
         (gf_update f = None \<and> (\<forall>r. tx_status r = pending \<longrightarrow> updatable w r) \<longrightarrow>
            (\<exists>r. transactions (snd R) (next_id w) = Some r \<and> tx_status r = failed \<and>
                 metadata r ''error'' = Some (MStr m)))"
  using assms(2-)
  unfolding R_def
  by (auto simp: initializeStripePayment_def createTransaction_def insert_transaction_def Let_def
        update_transaction_def truthy_str_def split: prod.splits option.splits)

lemma paystack_failure:
  fixes f http now w userId amt promotedPollId cur
  defines "R \<equiv> initializePaystackPayment f http now w userId amt promotedPollId cur"
  assumes "paystack_initiate_payment http = Inl m"
    and "cf_insert (gf_create f) = None"
  shows "fst R = \<lparr>data = None, error = Some m\<rparr> \<and>
         (gf_update f = None \<and> (\<forall>r. tx_status r = pending \<longrightarrow> updatable w r) \<longrightarrow>
            (\<exists>r. transactions (snd R) (next_id w) = Some r \<and> tx_status r = failed \<and>
                 metadata r ''error'' = Some (MStr m)))"
  using assms(2-)
  unfolding R_def
  by (auto simp: initializePaystackPayment_def createTransaction_def insert_transaction_def Let_def
        update_transaction_def truthy_str_def split: prod.splits option.splits)

text \<open>
  C6. Let the pending row be created, and let the gateway answer with a status that is not
  OK, or with a body that lacks the client secret (Stripe) or the authorization URL
  (Paystack). Then the caller receives no data and the error text: the \<^verbatim>\<open>error\<close> entry of the
  body, or the fixed message. When the update that follows is applied by the store, that is
  when it meets no fault and pending rows may be updated, the row is \<open>failed\<close> and its
  metadata holds the error text; the result of that update is not looked at.
\<close>

theorem gateway_failure_is_reported_and_marked:
  fixes f ok j now w userId amt promotedPollId cur
  defines "S \<equiv> initializeStripePayment f (Http_response ok (Json_value j)) now w userId amt promotedPollId cur"
    and "P \<equiv> initializePaystackPayment f (Http_response ok (Json_value j)) now w userId amt promotedPollId cur"
    and "ms \<equiv> (if \<not> ok then str_or (j_error j) ''Failed to create payment intent''
               else ''No client secret returned from payment intent creation'')"
    and "mp \<equiv> (if \<not> ok then str_or (j_error j) ''Failed to initialize Paystack payment''
               else ''No authorization URL returned from Paystack'')"
  assumes "cf_insert (gf_create f) = None"
  shows "(\<not> ok \<or> \<not> truthy_str (clientSecret j) \<longrightarrow>
            fst S = \<lparr>data = None, error = Some ms\<rparr> \<and>
            (gf_update f = None \<and> (\<forall>r. tx_status r = pending \<longrightarrow> updatable w r) \<longrightarrow>
               (\<exists>r. transactions (snd S) (next_id w) = Some r \<and> tx_status r = failed \<and>
                    metadata r ''error'' = Some (MStr ms)))) \<and>
         (\<not> ok \<or> \<not> truthy_str (authorizationUrl j) \<longrightarrow>
            fst P = \<lparr>data = None, error = Some mp\<rparr> \<and>
            (gf_update f = None \<and> (\<forall>r. tx_status r = pending \<longrightarrow> updatable w r) \<longrightarrow>
               (\<exists>r. transactions (snd P) (next_id w) = Some r \<and> tx_status r = failed \<and>
                    metadata r ''error'' = Some (MStr mp))))"
proof -
  have s: "create_payment_intent (Http_response ok (Json_value j)) = Inl ms"
    if "\<not> ok \<or> \<not> truthy_str (clientSecret j)"
    using that by (auto simp: create_payment_intent_def truthy_str_def ms_def split: option.splits)
  have p: "paystack_initiate_payment (Http_response ok (Json_value j)) = Inl mp"
    if "\<not> ok \<or> \<not> truthy_str (authorizationUrl j)"
    using that by (auto simp: paystack_initiate_payment_def truthy_str_def mp_def split: option.splits)
  show ?thesis
    unfolding S_def P_def
    using stripe_failure [OF s assms(5), of now w userId amt promotedPollId cur]
      paystack_failure [OF p assms(5), of now w userId amt promotedPollId cur]
    by blast
qed

text \<open>A declined card in the example store.\<close>

theorem gateway_failure_is_reported_and_marked_witness:
  "fst (initializeStripePayment no_gateway_faults declined ''2026-01-01'' example_world ''u1'' (Num 10) None ''USD'')
     = \<lparr>data = None, error = Some ''card declined''\<rparr> \<and>
   (\<exists>r. transactions
           (snd (initializeStripePayment no_gateway_faults declined ''2026-01-01'' example_world ''u1''
                   (Num 10) None ''USD'')) 1 = Some r \<and>
        tx_status r = failed \<and> metadata r ''error'' = Some (MStr ''card declined''))"
proof -
  let ?j = "\<lparr>j_error = Some ''card declined'', clientSecret = None, paymentIntentId = None,
             authorizationUrl = None, reference = None\<rparr>"
  have i: "cf_insert (gf_create no_gateway_faults) = None"
    by (simp add: no_gateway_faults_def no_create_faults_def)
  have u: "gf_update no_gateway_faults = None" "\<forall>r. tx_status r = pending \<longrightarrow> updatable example_world r"
    "next_id example_world = 1"
    by (simp_all add: no_gateway_faults_def example_world_def)
  from gateway_failure_is_reported_and_marked [OF i, of False ?j "''2026-01-01''" example_world
      "''u1''" "Num 10" None "''USD''", THEN conjunct1] u
  show ?thesis
    by (simp add: declined_def str_or_def)
qed

text \<open>
  C6 as stated fails when the store rejects the update: the caller still receives the
  error, the row stays pending and its metadata has no error text.
\<close>

theorem gateway_failure_with_failing_update_stays_pending:
  "fst (initializeStripePayment update_failing declined ''2026-01-01'' example_world ''u1'' (Num 10) None ''USD'')
     = \<lparr>data = None, error = Some ''card declined''\<rparr> \<and>
   map_option tx_status
     (transactions
        (snd (initializeStripePayment update_failing declined ''2026-01-01'' example_world ''u1''
                (Num 10) None ''USD'')) 1) = Some pending \<and>
   Option.bind
     (transactions
        (snd (initializeStripePayment update_failing declined ''2026-01-01'' example_world ''u1''
                (Num 10) None ''USD'')) 1) (\<lambda>r. metadata r ''error'') = None"
proof -
  have f: "cf_insert (gf_create update_failing) = None" "gf_update update_failing = Some ''store unavailable''"
    by (simp_all add: update_failing_def no_gateway_faults_def no_create_faults_def)
  have n: "next_id example_world = 1" "transactions example_world = Map.empty"
    by (simp_all add: example_world_def)
  have c: "create_payment_intent declined = Inl ''card declined''"
    by (simp add: create_payment_intent_def declined_def str_or_def)
  show ?thesis
    by (simp add: initializeStripePayment_def createTransaction_def insert_transaction_def Let_def
        update_transaction_def truthy_str_def f n c split: prod.splits)
qed

end
